theory Spec2Isabelle
  imports Complex_Main "HOL-Library.Sublist" "HOL-Library.AList"
begin

section \<open>JavaScript values used by the action handlers\<close>

text \<open>
  Strings are lists of characters; a character stands for the code point of the same
  number, so only code points below 256 are represented. Numbers that the handlers
  compute with (layout lengths, percentages, delays) are exact rationals: the rounding
  of IEEE doubles is not modelled.
\<close>

datatype jsnum = NaN | NegInfinity | Finite rat | PosInfinity

text \<open>White space and line terminators of ECMAScript (\<^verbatim>\<open>String.prototype.trim\<close>),
  as far as they lie below code point 256.\<close>

definition isWhiteSpace :: "char \<Rightarrow> bool" where
  "isWhiteSpace c = ((of_char c :: nat) \<in> {9, 10, 11, 12, 13, 32, 160})"

definition trim :: "string \<Rightarrow> string" where
  "trim s = rev (dropWhile isWhiteSpace (rev (dropWhile isWhiteSpace s)))"

text \<open>\<^verbatim>\<open>s.replace(c, "")\<close> with a string pattern: only the first occurrence goes.\<close>

fun replaceFirst :: "char \<Rightarrow> string \<Rightarrow> string" where
  "replaceFirst c [] = []"
| "replaceFirst c (x # xs) = (if x = c then xs else x # replaceFirst c xs)"

definition isDigit :: "char \<Rightarrow> bool" where
  "isDigit c = (48 \<le> (of_char c :: nat) \<and> (of_char c :: nat) \<le> 57)"

definition digitsValue :: "string \<Rightarrow> nat" where
  "digitsValue ds = foldl (\<lambda>a c. 10 * a + ((of_char c :: nat) - 48)) 0 ds"

text \<open>The exponent of an \<^verbatim>\<open>ExponentPart\<close> at the head of the rest of the string; an
  \<^verbatim>\<open>e\<close> with no digit after it is not part of the literal, which is the exponent 0.\<close>

definition exponentPart :: "string \<Rightarrow> int" where
  "exponentPart r =
     (case r of
        [] \<Rightarrow> 0
      | c # t \<Rightarrow>
          if c = CHR ''e'' \<or> c = CHR ''E'' then
            (case t of
               [] \<Rightarrow> 0
             | d # u \<Rightarrow>
                 if d = CHR ''+'' then int (digitsValue (takeWhile isDigit u))
                 else if d = CHR ''-'' then - int (digitsValue (takeWhile isDigit u))
                 else int (digitsValue (takeWhile isDigit t)))
          else 0)"

definition scale10 :: "rat \<Rightarrow> int \<Rightarrow> rat" where
  "scale10 m e = (if 0 \<le> e then m * 10 ^ nat e else m / 10 ^ nat (- e))"

text \<open>The longest prefix that is a \<^verbatim>\<open>StrUnsignedDecimalLiteral\<close>, and its value.\<close>

definition strUnsignedDecimalLiteral :: "string \<Rightarrow> jsnum" where
  "strUnsignedDecimalLiteral s =
     (if prefix ''Infinity'' s then PosInfinity
      else
        let ip = takeWhile isDigit s;
            r1 = dropWhile isDigit s;
            fp = (case r1 of [] \<Rightarrow> [] | c # t \<Rightarrow> if c = CHR ''.'' then takeWhile isDigit t else []);
            r2 = (case r1 of [] \<Rightarrow> []
                  | c # t \<Rightarrow> if c = CHR ''.'' \<and> (ip \<noteq> [] \<or> fp \<noteq> []) then dropWhile isDigit t else r1)
        in if ip = [] \<and> fp = [] then NaN
           else Finite (scale10 (of_nat (digitsValue ip) + of_nat (digitsValue fp) / 10 ^ length fp)
                          (exponentPart r2)))"

fun negate :: "jsnum \<Rightarrow> jsnum" where
  "negate NaN = NaN"
| "negate NegInfinity = PosInfinity"
| "negate (Finite r) = Finite (- r)"
| "negate PosInfinity = NegInfinity"

text \<open>The global \<^verbatim>\<open>parseFloat\<close>: leading white space is skipped, then the longest
  prefix that is a \<^verbatim>\<open>StrDecimalLiteral\<close> is read; with no such prefix the result is NaN.\<close>

definition parseFloat :: "string \<Rightarrow> jsnum" where
  "parseFloat s =
     (case dropWhile isWhiteSpace s of
        [] \<Rightarrow> NaN
      | c # t \<Rightarrow>
          if c = CHR ''+'' then strUnsignedDecimalLiteral t
          else if c = CHR ''-'' then negate (strUnsignedDecimalLiteral t)
          else strUnsignedDecimalLiteral (c # t))"

section \<open>The percentage parser\<close>

text \<open>
  \<^verbatim>\<open>
  function parsePercent(val: string): number {
    const cleaned = val.trim().replace("%", "");
    const num = parseFloat(cleaned);
    return Number.isNaN(num) ? 0 : Math.max(0, Math.min(num, 100));
  }
  \<close>
  The result is never NaN or infinite, so it is a rational: for each kind of \<open>num\<close> the
  value of \<^verbatim>\<open>Math.max(0, Math.min(num, 100))\<close> is written out.
\<close>

definition parsePercent :: "string \<Rightarrow> rat" where
  "parsePercent val =
     (let cleaned = replaceFirst (CHR ''%'') (trim val);
          num = parseFloat cleaned
      in case num of
           NaN \<Rightarrow> 0
         | NegInfinity \<Rightarrow> 0
         | PosInfinity \<Rightarrow> 100
         | Finite r \<Rightarrow> max 0 (min r 100))"



section \<open>Values, errors and observable effects\<close>

text \<open>
  Arguments of an action are arbitrary JavaScript values. Numbers are integers that print
  in plain decimal notation, objects are plain objects with their own enumerable
  properties in order.
\<close>

datatype jsval =
    JUndefined
  | JNull
  | JBool bool
  | JNumber int
  | JString string
  | JObject "(string \<times> jsval) list"

fun decimal :: "nat \<Rightarrow> string" where
  "decimal n = (if n < 10 then [char_of (48 + n)] else decimal (n div 10) @ [char_of (48 + n mod 10)])"

declare decimal.simps [simp del]

text \<open>\<^verbatim>\<open>v?.toString()\<close>: \<open>None\<close> is \<^verbatim>\<open>undefined\<close>.\<close>

fun toString :: "jsval \<Rightarrow> string option" where
  "toString JUndefined = None"
| "toString JNull = None"
| "toString (JBool b) = Some (if b then ''true'' else ''false'')"
| "toString (JNumber n) = Some (if n < 0 then CHR ''-'' # decimal (nat (- n)) else decimal (nat n))"
| "toString (JString s) = Some s"
| "toString (JObject kvs) = Some ''[object Object]''"

text \<open>The properties that an object spread \<^verbatim>\<open>{...v}\<close> copies.\<close>

fun ownProperties :: "jsval \<Rightarrow> (string \<times> jsval) list" where
  "ownProperties (JObject kvs) = kvs"
| "ownProperties (JString s) = map (\<lambda>i. (decimal i, JString [s ! i])) [0..<length s]"
| "ownProperties v = []"

text \<open>\<^verbatim>\<open>args[0]\<close>\<close>

definition firstArg :: "jsval list \<Rightarrow> jsval" where
  "firstArg args = (case args of [] \<Rightarrow> JUndefined | a # _ \<Rightarrow> a)"

text \<open>\<^verbatim>\<open>String.prototype.toLowerCase\<close> on code points below 256.\<close>

definition toLowerCase :: "string \<Rightarrow> string" where
  "toLowerCase s =
     map (\<lambda>c. let n = (of_char c :: nat)
              in if (65 \<le> n \<and> n \<le> 90) \<or> (192 \<le> n \<and> n \<le> 222 \<and> n \<noteq> 215) then char_of (n + 32) else c) s"

text \<open>The errors that reach the handlers: Playwright's \<^verbatim>\<open>TimeoutError\<close>, any other
  error, and the \<^verbatim>\<open>PlaywrightCommandException\<close> that the handlers raise themselves.\<close>

datatype js_error =
    TimeoutError string
  | Error string
  | PlaywrightCommandException string

fun message :: "js_error \<Rightarrow> string" where
  "message (TimeoutError m) = m"
| "message (Error m) = m"
| "message (PlaywrightCommandException m) = m"

text \<open>\<^verbatim>\<open>error instanceof PlaywrightErrors.TimeoutError\<close>\<close>

fun isTimeoutError :: "js_error \<Rightarrow> bool" where
  "isTimeoutError (TimeoutError m) = True"
| "isTimeoutError e = False"

text \<open>Locators are kept as the expressions that build them.\<close>

datatype locator =
    CtxLocator
  | PageLocator string
  | SubLocator locator string
  | First locator

datatype page = Page (url: string)

text \<open>A value of the \<^verbatim>\<open>auxiliary\<close> field of a log line: a string, the stack of an
  error, or \<^verbatim>\<open>JSON.stringify\<close> of the argument list (the last two are kept symbolic).\<close>

datatype aux_value = AuxString string | AuxStack js_error | AuxJson "jsval list"

type_synonym auxiliary = "(string \<times> aux_value \<times> string) list"

text \<open>What receives a scroll command or is waited for: the window (for the wait,
  \<^verbatim>\<open>document.scrollingElement || document.documentElement\<close>) or the resolved element.\<close>

datatype scroll_receiver = Window | Element

text \<open>
  Everything a handler does to the outside, in order. \<open>Log category message level
  auxiliary\<close> is a call of the logging sink; \<open>ScrollBy r top left\<close> and
  \<open>ScrollTo r top left\<close> are the smooth scroll commands; \<open>Click l options\<close> is
  \<^verbatim>\<open>l.click(options)\<close>; \<open>KeyboardType text delay\<close> is \<^verbatim>\<open>keyboard.type(text, {delay})\<close>.
\<close>

datatype effect =
    Log string string nat auxiliary
  | ConsoleWarn string
  | ScrollBy scroll_receiver rat rat
  | ScrollTo scroll_receiver rat rat
  | WaitForElementScrollEnd scroll_receiver
  | Fill locator string
  | Click locator "(string \<times> jsval) list"
  | KeyboardType string rat
  | KeyboardPress string
  | ContextOnce string
  | SetTimeout nat
  | ClosePage page
  | Goto string
  | WaitForLoadState string
  | WaitForSettledDom "nat option"

text \<open>An asynchronous computation: the effects it had, and its error or its value.\<close>

type_synonym 'a action = "effect list \<times> (js_error + 'a)"

definition finish :: "'a \<Rightarrow> 'a action" where
  "finish x = ([], Inr x)"

definition throw :: "js_error \<Rightarrow> 'a action" where
  "throw e = ([], Inl e)"

definition emit :: "effect \<Rightarrow> unit action" where
  "emit ef = ([ef], Inr ())"

text \<open>A command sent to the browser, which then succeeds or rejects.\<close>

definition await :: "effect \<Rightarrow> js_error option \<Rightarrow> unit action" where
  "await ef r = ([ef], case r of None \<Rightarrow> Inr () | Some e \<Rightarrow> Inl e)"

text \<open>A read from the browser, with no effect of its own.\<close>

definition query :: "js_error + 'a \<Rightarrow> 'a action" where
  "query r = ([], r)"

definition then_with :: "'a action \<Rightarrow> ('a \<Rightarrow> 'b action) \<Rightarrow> 'b action" where
  "then_with m f =
     (case m of
        (es, Inl e) \<Rightarrow> (es, Inl e)
      | (es, Inr x) \<Rightarrow> (case f x of (es', r) \<Rightarrow> (es @ es', r)))"

definition then_do :: "unit action \<Rightarrow> 'b action \<Rightarrow> 'b action" where
  "then_do m n = then_with m (\<lambda>_. n)"

text \<open>\<^verbatim>\<open>try { m } catch (e) { h e }\<close>\<close>

definition try_catch :: "'a action \<Rightarrow> (js_error \<Rightarrow> 'a action) \<Rightarrow> 'a action" where
  "try_catch m h =
     (case m of
        (es, Inl e) \<Rightarrow> (case h e of (es', r) \<Rightarrow> (es @ es', r))
      | (es, Inr x) \<Rightarrow> (es, Inr x))"

section \<open>The handler context and the browser\<close>

text \<open>The fields of \<^verbatim>\<open>MethodHandlerContext\<close> that are data. The locator of the context is
  \<open>CtxLocator\<close>; the logger and the page are the effects and the browser below.\<close>

record method_handler_context =
  xpath :: string
  args :: "jsval list"
  initialUrl :: string
  domSettleTimeoutMs :: "nat option"

text \<open>A DOM node as the in-page scripts read it. For a node that is not an element only
  \<open>nodeType\<close> is read.\<close>

record element =
  nodeType :: nat
  tagName :: string
  boundingClientRect_height :: rat
  scrollHeight :: rat
  clientHeight :: rat
  scrollLeft :: rat

definition ELEMENT_NODE :: nat where
  "ELEMENT_NODE = 1"

text \<open>
  What the browser answers. None of this is code of the repository: each field is the
  outcome of one external call, \<open>Some e\<close> or \<open>Inl e\<close> when the call throws \<open>e\<close>.
  The DOM does not change while one handler resolves its target, so reads are functions
  of what is asked. Calls that the handlers repeat carry the number of the attempt.
  \<^item> \<open>getNodeFromXpath\<close> is the in-page helper of that name, \<open>None\<close> for \<^verbatim>\<open>null\<close>;
  \<^item> \<open>visualViewport_height\<close>, \<open>innerHeight\<close> and \<open>scrollX\<close> are read from
    \<^verbatim>\<open>window\<close> (whose visual viewport exists), \<open>body_scrollHeight\<close> from
    \<^verbatim>\<open>document.body\<close>;
  \<^item> \<open>typeError_trim v\<close> is the error of \<^verbatim>\<open>v.trim()\<close> on a value that is no string;
  \<^item> \<open>evaluate_isRadio\<close> and \<open>evaluate_id\<close> are the two \<^verbatim>\<open>locator.evaluate\<close> reads;
  \<^item> \<open>click n l options\<close> is the \<open>n\<close>-th click of the handler (from 0);
  \<^item> \<open>keyboard_type n\<close> is the \<open>n\<close>-th keystroke, \<open>Math_random n\<close> the \<open>n\<close>-th draw;
  \<^item> \<open>page_url_before\<close> and \<open>page_url_after\<close> are \<^verbatim>\<open>page.url()\<close> when a handler
    starts and when the navigation watcher ends;
  \<^item> \<open>newPageEvent\<close> is the time, counted from the subscription, at which the browser
    context emits its next \<^verbatim>\<open>page\<close> event, and the page it carries;
    \<open>pageEventFirstOnTie\<close> says which callback runs first when that is the time of the timer.
\<close>

record browser =
  getNodeFromXpath :: "string \<Rightarrow> js_error + element option"
  typeError_trim :: "jsval \<Rightarrow> js_error"
  visualViewport_height :: rat
  innerHeight :: rat
  scrollX :: rat
  body_scrollHeight :: rat
  waitForElementScrollEnd :: "scroll_receiver \<Rightarrow> js_error option"
  evaluate_isRadio :: "js_error + bool"
  evaluate_id :: "js_error + string"
  count :: "locator \<Rightarrow> js_error + nat"
  click :: "nat \<Rightarrow> locator \<Rightarrow> (string \<times> jsval) list \<Rightarrow> js_error option"
  fill :: "locator \<Rightarrow> string \<Rightarrow> js_error option"
  keyboard_type :: "nat \<Rightarrow> string \<Rightarrow> rat \<Rightarrow> js_error option"
  keyboard_press :: "string \<Rightarrow> js_error option"
  Math_random :: "nat \<Rightarrow> rat"
  page_url_before :: string
  page_url_after :: string
  newPageEvent :: "(nat \<times> page) option"
  pageEventFirstOnTie :: bool
  close :: "page \<Rightarrow> js_error option"
  goto :: "string \<Rightarrow> js_error option"
  waitForLoadState :: "string \<Rightarrow> js_error option"
  waitForSettledDom :: "nat option \<Rightarrow> js_error option"

section \<open>The in-page scroll driver\<close>

definition scrollToNextChunk :: "browser \<Rightarrow> method_handler_context \<Rightarrow> unit action" where
  "scrollToNextChunk b ctx =
     then_do
       (emit (Log ''action'' ''scrolling to next chunk'' 2
                [(''xpath'', AuxString (xpath ctx), ''string'')]))
       (try_catch
          (then_with (query (getNodeFromXpath b (xpath ctx))) (\<lambda>elementNode.
             case elementNode of
               None \<Rightarrow> emit (ConsoleWarn ''Could not locate element to scroll by its height.'')
             | Some el \<Rightarrow>
                 if nodeType el \<noteq> ELEMENT_NODE
                 then emit (ConsoleWarn ''Could not locate element to scroll by its height.'')
                 else
                   let tag = toLowerCase (tagName el) in
                   if tag = ''html'' \<or> tag = ''body'' then
                     let height = visualViewport_height b in
                     then_do (emit (ScrollBy Window height 0))
                       (await (WaitForElementScrollEnd Window) (waitForElementScrollEnd b Window))
                   else
                     let height = boundingClientRect_height el in
                     then_do (emit (ScrollBy Element height 0))
                       (await (WaitForElementScrollEnd Element) (waitForElementScrollEnd b Element))))
          (\<lambda>e.
             then_do
               (emit (Log ''action'' ''error scrolling to next chunk'' 1
                        [(''error'', AuxString (message e), ''string''),
                         (''trace'', AuxStack e, ''string''),
                         (''xpath'', AuxString (xpath ctx), ''string'')]))
               (throw (PlaywrightCommandException (message e)))))"

definition scrollToPreviousChunk :: "browser \<Rightarrow> method_handler_context \<Rightarrow> unit action" where
  "scrollToPreviousChunk b ctx =
     then_do
       (emit (Log ''action'' ''scrolling to previous chunk'' 2
                [(''xpath'', AuxString (xpath ctx), ''string'')]))
       (try_catch
          (then_with (query (getNodeFromXpath b (xpath ctx))) (\<lambda>elementNode.
             case elementNode of
               None \<Rightarrow> emit (ConsoleWarn ''Could not locate element to scroll by its height.'')
             | Some el \<Rightarrow>
                 if nodeType el \<noteq> ELEMENT_NODE
                 then emit (ConsoleWarn ''Could not locate element to scroll by its height.'')
                 else
                   let tag = toLowerCase (tagName el) in
                   if tag = ''html'' \<or> tag = ''body'' then
                     let height = visualViewport_height b in
                     then_do (emit (ScrollBy Window (- height) 0))
                       (await (WaitForElementScrollEnd Window) (waitForElementScrollEnd b Window))
                   else
                     let height = boundingClientRect_height el in
                     then_do (emit (ScrollBy Element (- height) 0))
                       (await (WaitForElementScrollEnd Element) (waitForElementScrollEnd b Element))))
          (\<lambda>e.
             then_do
               (emit (Log ''action'' ''error scrolling to previous chunk'' 1
                        [(''error'', AuxString (message e), ''string''),
                         (''trace'', AuxStack e, ''string''),
                         (''xpath'', AuxString (xpath ctx), ''string'')]))
               (throw (PlaywrightCommandException (message e)))))"

text \<open>\<^verbatim>\<open>const [yArg = "0%"] = args\<close>: the default replaces a missing or undefined
  first argument only.\<close>

definition yArgOf :: "jsval list \<Rightarrow> jsval" where
  "yArgOf as = (case as of [] \<Rightarrow> JString ''0%'' | a # _ \<Rightarrow> if a = JUndefined then JString ''0%'' else a)"

definition scrollElementToPercentage :: "browser \<Rightarrow> method_handler_context \<Rightarrow> unit action" where
  "scrollElementToPercentage b ctx =
     then_do
       (emit (Log ''action'' ''scrolling element vertically to specified percentage'' 2
                [(''xpath'', AuxString (xpath ctx), ''string''),
                 (''coordinate'', AuxJson (args ctx), ''string'')]))
       (try_catch
          (let yArg = yArgOf (args ctx) in
           then_with (query (getNodeFromXpath b (xpath ctx))) (\<lambda>elementNode.
             case elementNode of
               None \<Rightarrow> emit (ConsoleWarn ''Could not locate element to scroll on.'')
             | Some el \<Rightarrow>
                 if nodeType el \<noteq> ELEMENT_NODE
                 then emit (ConsoleWarn ''Could not locate element to scroll on.'')
                 else
                   then_with
                     (case yArg of JString val \<Rightarrow> finish (parsePercent val)
                                 | v \<Rightarrow> throw (typeError_trim b v))
                     (\<lambda>yPct.
                        if toLowerCase (tagName el) = ''html'' then
                          emit (ScrollTo Window
                                  ((body_scrollHeight b - innerHeight b) * (yPct / 100))
                                  (scrollX b))
                        else
                          emit (ScrollTo Element
                                  ((scrollHeight el - clientHeight el) * (yPct / 100))
                                  (scrollLeft el)))))
          (\<lambda>e.
             then_do
               (emit (Log ''action'' ''error scrolling element vertically to percentage'' 1
                        [(''error'', AuxString (message e), ''string''),
                         (''trace'', AuxStack e, ''string''),
                         (''xpath'', AuxString (xpath ctx), ''string''),
                         (''args'', AuxJson (args ctx), ''object'')]))
               (throw (PlaywrightCommandException (message e)))))"

text \<open>The scroll commands among the effects.\<close>

fun isScroll :: "effect \<Rightarrow> bool" where
  "isScroll (ScrollBy r t l) = True"
| "isScroll (ScrollTo r t l) = True"
| "isScroll e = False"

definition scrolls :: "'a action \<Rightarrow> effect list" where
  "scrolls m = filter isScroll (fst m)"

section \<open>The text input simulator\<close>




section \<open>The navigation watcher\<close>

text \<open>
  \<^verbatim>\<open>
  new Promise((resolve) => {
    stagehandPage.context.once("page", (page) => resolve(page));
    setTimeout(() => resolve(null), 1500);
  })
  \<close>
  The promise takes the value of the callback that runs first; the later call of
  \<^verbatim>\<open>resolve\<close> does nothing. \<open>None\<close> is \<^verbatim>\<open>null\<close>.
\<close>

definition raceForNewPage :: "browser \<Rightarrow> page option action" where
  "raceForNewPage b =
     then_do (emit (ContextOnce ''page''))
       (then_do (emit (SetTimeout 1500))
          (finish
             (case newPageEvent b of
                None \<Rightarrow> None
              | Some (t, p) \<Rightarrow>
                  if t < 1500 \<or> (t = 1500 \<and> pageEventFirstOnTie b) then Some p else None)))"

definition handlePossiblePageNavigation ::
  "string \<Rightarrow> string \<Rightarrow> string \<Rightarrow> browser \<Rightarrow> nat option \<Rightarrow> unit action" where
  "handlePossiblePageNavigation actionDescription xp initUrl b settleMs =
     then_do
       (emit (Log ''action'' (actionDescription @ '', checking for page navigation'') 1
                [(''xpath'', AuxString xp, ''string'')]))
       (then_with (raceForNewPage b) (\<lambda>newOpenedTab.
          then_do
            (emit (Log ''action'' (actionDescription @ '' complete'') 1
                     [(''newOpenedTab'',
                       AuxString (if newOpenedTab \<noteq> None then ''opened a new tab''
                                  else ''no new tabs opened''),
                       ''string'')]))
            (then_do
               (case newOpenedTab of
                  None \<Rightarrow> finish ()
                | Some p \<Rightarrow>
                    then_do
                      (emit (Log ''action'' ''new page detected (new tab) with URL'' 1
                               [(''url'', AuxString (url p), ''string'')]))
                      (then_do (await (ClosePage p) (close b p))
                         (then_do (await (Goto (url p)) (goto b (url p)))
                            (await (WaitForLoadState ''domcontentloaded'')
                               (waitForLoadState b ''domcontentloaded'')))))
               (then_do
                  (try_catch
                     (await (WaitForSettledDom settleMs) (waitForSettledDom b settleMs))
                     (\<lambda>e.
                        emit (Log ''action'' ''wait for settled DOM timeout hit'' 1
                                [(''trace'', AuxStack e, ''string''),
                                 (''message'', AuxString (message e), ''string'')])))
                  (then_do
                     (emit (Log ''action'' ''finished waiting for (possible) page navigation'' 1 []))
                     (if page_url_after b \<noteq> initUrl
                      then emit (Log ''action'' ''new page detected with URL'' 1
                                   [(''url'', AuxString (page_url_after b), ''string'')])
                      else finish ()))))))"

section \<open>Key press\<close>

text \<open>\<^verbatim>\<open>args[0]?.toString() ?? d\<close>\<close>

definition keyOf :: "jsval list \<Rightarrow> string \<Rightarrow> string" where
  "keyOf as d = (case toString (firstArg as) of None \<Rightarrow> d | Some s \<Rightarrow> s)"

definition pressKey :: "browser \<Rightarrow> method_handler_context \<Rightarrow> unit action" where
  "pressKey b ctx =
     try_catch
       (let key = keyOf (args ctx) [] in
        then_do (await (KeyboardPress key) (keyboard_press b key))
          (handlePossiblePageNavigation ''press'' (xpath ctx) (initialUrl ctx) b
             (domSettleTimeoutMs ctx)))
       (\<lambda>e.
          then_do
            (emit (Log ''action'' ''error pressing key'' 1
                     [(''error'', AuxString (message e), ''string''),
                      (''trace'', AuxStack e, ''string''),
                      (''key'', AuxString (keyOf (args ctx) ''unknown''), ''string'')]))
            (throw (PlaywrightCommandException (message e))))"

section \<open>Click\<close>

definition dquote :: char where
  "dquote = CHR 0x22"

text \<open>The selector \<^verbatim>\<open>label[for="${inputId}"]\<close>.\<close>

definition labelForSelector :: "string \<Rightarrow> string" where
  "labelForSelector inputId = ''label[for='' @ [dquote] @ inputId @ [dquote] @ '']''"

definition ancestorLabel :: "string \<Rightarrow> locator" where
  "ancestorLabel xp = First (PageLocator (''xpath='' @ xp @ ''/ancestor::label''))"

definition followingSiblingLabel :: locator where
  "followingSiblingLabel = First (SubLocator CtxLocator ''xpath=following-sibling::label'')"

definition precedingSiblingLabel :: locator where
  "precedingSiblingLabel = First (SubLocator CtxLocator ''xpath=preceding-sibling::label'')"

text \<open>
  The first part of the body of \<^verbatim>\<open>clickElement\<close>: which locator the click goes to. The
  variable \<^verbatim>\<open>labelLocator\<close> is \<open>None\<close> while it is \<^verbatim>\<open>null\<close>; every
  \<^verbatim>\<open>await labelLocator.count()\<close> of the source is one read of \<open>count\<close>.
\<close>

definition finalLocator :: "browser \<Rightarrow> method_handler_context \<Rightarrow> locator action" where
  "finalLocator b ctx =
     then_with (query (evaluate_isRadio b)) (\<lambda>isRadio.
       if isRadio then
         then_with (query (evaluate_id b)) (\<lambda>inputId.
           let labelLocator0 =
                 (if inputId \<noteq> [] then Some (PageLocator (labelForSelector inputId)) else None)
           in
           then_with
             (case labelLocator0 of
                None \<Rightarrow> finish (ancestorLabel (xpath ctx))
              | Some l \<Rightarrow>
                  then_with (query (count b l)) (\<lambda>n.
                    if n < 1 then finish (ancestorLabel (xpath ctx)) else finish l))
             (\<lambda>labelLocator1.
                then_with (query (count b labelLocator1)) (\<lambda>n1.
                  then_with
                    (if n1 < 1 then
                       then_with (query (count b followingSiblingLabel)) (\<lambda>n2.
                         if n2 < 1 then finish precedingSiblingLabel
                         else finish followingSiblingLabel)
                     else finish labelLocator1)
                    (\<lambda>labelLocator2.
                       then_with (query (count b labelLocator2)) (\<lambda>n3.
                         if n3 > 0 then finish labelLocator2 else finish CtxLocator)))))
       else finish CtxLocator)"

text \<open>\<^verbatim>\<open>(args[0] ?? {})\<close>, as the properties that a spread of it copies.\<close>

definition clickArgOf :: "jsval list \<Rightarrow> (string \<times> jsval) list" where
  "clickArgOf as =
     (case firstArg as of
        JUndefined \<Rightarrow> []
      | JNull \<Rightarrow> []
      | v \<Rightarrow> ownProperties v)"

text \<open>\<^verbatim>\<open>{...clickArg, timeout: 5000}\<close> and \<^verbatim>\<open>{...clickArg, force: true}\<close>: a spread
  followed by a key sets the key in place when the spread has it and appends it otherwise.\<close>

definition withTimeout :: "(string \<times> jsval) list \<Rightarrow> (string \<times> jsval) list" where
  "withTimeout clickArg = AList.update ''timeout'' (JNumber 5000) clickArg"

definition withForce :: "(string \<times> jsval) list \<Rightarrow> (string \<times> jsval) list" where
  "withForce clickArg = AList.update ''force'' (JBool True) clickArg"

text \<open>The three messages that \<^verbatim>\<open>clickElement\<close> composes, as the template literals of
  the source.\<close>

definition forceClickFailedMessage :: "string \<Rightarrow> js_error \<Rightarrow> js_error \<Rightarrow> string" where
  "forceClickFailedMessage xp error forceError =
     ''Failed to click element at ['' @ xp @ '']. '' @
     ''Timeout after 5s, then force-click also failed. '' @
     ''Original timeout error: '' @ message error @ '', '' @
     ''Force-click error: '' @ message forceError"

definition clickFailedMessage :: "string \<Rightarrow> js_error \<Rightarrow> string" where
  "clickFailedMessage xp error =
     ''Failed to click element at ['' @ xp @ '']. '' @ ''Error: '' @ message error"

definition couldNotCompleteMessage :: "string \<Rightarrow> js_error \<Rightarrow> string" where
  "couldNotCompleteMessage xp e =
     ''Could not complete click action at ['' @ xp @ '']. Reason: '' @ message e"

text \<open>The second part: the click with a timeout of 5 s, and the forced click after a
  \<^verbatim>\<open>TimeoutError\<close>.\<close>

definition clickWithRetry ::
  "browser \<Rightarrow> string \<Rightarrow> locator \<Rightarrow> (string \<times> jsval) list \<Rightarrow> unit action" where
  "clickWithRetry b xp l clickArg =
     try_catch
       (await (Click l (withTimeout clickArg)) (click b 0 l (withTimeout clickArg)))
       (\<lambda>error.
          if isTimeoutError error then
            then_do
              (emit (Log ''action'' ''First click attempt timed out, retrying with force...'' 2 []))
              (try_catch
                 (await (Click l (withForce clickArg)) (click b 1 l (withForce clickArg)))
                 (\<lambda>forceError.
                    throw (PlaywrightCommandException
                             (forceClickFailedMessage xp error forceError))))
          else
            throw (PlaywrightCommandException (clickFailedMessage xp error)))"

definition clickElement :: "browser \<Rightarrow> method_handler_context \<Rightarrow> unit action" where
  "clickElement b ctx =
     then_do
       (emit (Log ''action'' ''page URL before click'' 2
                [(''url'', AuxString (page_url_before b), ''string'')]))
       (then_do
          (try_catch
             (then_with (finalLocator b ctx) (\<lambda>l.
                clickWithRetry b (xpath ctx) l (clickArgOf (args ctx))))
             (\<lambda>e.
                then_do
                  (emit (Log ''action'' ''error performing click'' 1
                           [(''error'', AuxString (message e), ''string''),
                            (''trace'', AuxStack e, ''string''),
                            (''xpath'', AuxString (xpath ctx), ''string''),
                            (''method'', AuxString ''click'', ''string''),
                            (''args'', AuxJson (args ctx), ''object'')]))
                  (throw (PlaywrightCommandException (couldNotCompleteMessage (xpath ctx) e)))))
          (handlePossiblePageNavigation ''click'' (xpath ctx) (initialUrl ctx) b
             (domSettleTimeoutMs ctx)))"

text \<open>The clicks, the keystrokes and the commands of the navigation watcher among the
  effects.\<close>

fun isClick :: "effect \<Rightarrow> bool" where
  "isClick (Click l os) = True"
| "isClick e = False"

fun isLog :: "effect \<Rightarrow> bool" where
  "isLog (Log c m l a) = True"
| "isLog e = False"

definition commands :: "'a action \<Rightarrow> effect list" where
  "commands m = filter (\<lambda>e. \<not> isLog e) (fst m)"

section \<open>What the specification says, for comparison\<close>






section \<open>Example inputs\<close>

text \<open>A page with a root element, a body, one scrollable block and one text node, in a
  browser where every command succeeds and no new page opens.\<close>

definition html_element :: element where
  "html_element = \<lparr>nodeType = 1, tagName = ''HTML'', boundingClientRect_height = 4000,
     scrollHeight = 4000, clientHeight = 800, scrollLeft = 0\<rparr>"

definition body_element :: element where
  "body_element = \<lparr>nodeType = 1, tagName = ''BODY'', boundingClientRect_height = 3900,
     scrollHeight = 3900, clientHeight = 700, scrollLeft = 5\<rparr>"

definition div_element :: element where
  "div_element = \<lparr>nodeType = 1, tagName = ''DIV'', boundingClientRect_height = 300,
     scrollHeight = 2000, clientHeight = 500, scrollLeft = 7\<rparr>"

definition text_node :: element where
  "text_node = \<lparr>nodeType = 3, tagName = [], boundingClientRect_height = 0,
     scrollHeight = 0, clientHeight = 0, scrollLeft = 0\<rparr>"

definition quiet_browser :: browser where
  "quiet_browser =
     \<lparr>getNodeFromXpath =
        (\<lambda>x. if x = ''/html'' then Inr (Some html_element)
             else if x = ''/html/body'' then Inr (Some body_element)
             else if x = ''/html/body/div'' then Inr (Some div_element)
             else if x = ''/html/body/text()'' then Inr (Some text_node)
             else Inr None),
      typeError_trim = (\<lambda>v. Error ''val.trim is not a function''),
      visualViewport_height = 800,
      innerHeight = 810,
      scrollX = 3,
      body_scrollHeight = 3900,
      waitForElementScrollEnd = (\<lambda>r. None),
      evaluate_isRadio = Inr False,
      evaluate_id = Inr [],
      count = (\<lambda>l. Inr 0),
      click = (\<lambda>n l os. None),
      fill = (\<lambda>l s. None),
      keyboard_type = (\<lambda>n s d. None),
      keyboard_press = (\<lambda>k. None),
      Math_random = (\<lambda>n. 1 / 2),
      page_url_before = ''https://a.example/'',
      page_url_after = ''https://a.example/'',
      newPageEvent = None,
      pageEventFirstOnTie = False,
      close = (\<lambda>p. None),
      goto = (\<lambda>u. None),
      waitForLoadState = (\<lambda>s. None),
      waitForSettledDom = (\<lambda>t. None)\<rparr>"

definition div_context :: method_handler_context where
  "div_context = \<lparr>xpath = ''/html/body/div'', args = [JString ''50%''],
     initialUrl = ''https://a.example/'', domSettleTimeoutMs = None\<rparr>"

text \<open>A radio input in a form, with the id \<open>opt1\<close> and a label for it; the same input
  with no id and one following sibling label as its only label; a browser where the
  first click runs into its timeout and the forced click fails as well; one where a new
  page opens 300 ms after the action; and one where the DOM does not settle in time.\<close>

definition radio_context :: method_handler_context where
  "radio_context = \<lparr>xpath = ''/html/body/form/input[1]'', args = [],
     initialUrl = ''https://a.example/'', domSettleTimeoutMs = Some 30000\<rparr>"



definition stuck_browser :: browser where
  "stuck_browser = quiet_browser
     \<lparr>click := (\<lambda>n l os. if n = 0 then Some (TimeoutError ''Timeout 5000ms exceeded.'')
                          else Some (Error ''Element is not attached to the DOM''))\<rparr>"

definition detached_browser :: browser where
  "detached_browser = quiet_browser
     \<lparr>click := (\<lambda>n l os. Some (Error ''Element is not attached to the DOM''))\<rparr>"

definition new_tab_browser :: browser where
  "new_tab_browser = quiet_browser
     \<lparr>newPageEvent := Some (300, Page ''https://b.example/'')\<rparr>"

definition slow_browser :: browser where
  "slow_browser = quiet_browser
     \<lparr>waitForSettledDom := (\<lambda>t. Some (TimeoutError ''DOM did not settle''))\<rparr>"

section \<open>Properties\<close>

lemmas action_defs =
  finish_def throw_def emit_def await_def query_def then_with_def then_do_def try_catch_def

subsection \<open>The percentage parser\<close>







subsection \<open>The scroll driver\<close>

lemma example_tags:
  "toLowerCase (tagName html_element) = ''html''"
  "toLowerCase (tagName body_element) = ''body''"
  "toLowerCase (tagName div_element) = ''div''"
  by code_simp+

lemma example_nodes:
  "getNodeFromXpath quiet_browser ''/html'' = Inr (Some html_element)"
  "getNodeFromXpath quiet_browser ''/html/body'' = Inr (Some body_element)"
  "getNodeFromXpath quiet_browser ''/html/body/div'' = Inr (Some div_element)"
  "getNodeFromXpath quiet_browser ''/html/body/text()'' = Inr (Some text_node)"
  "getNodeFromXpath quiet_browser ''/html/body/p'' = Inr None"
  by (simp_all add: quiet_browser_def)

lemma example_node_types:
  "nodeType html_element = ELEMENT_NODE" "nodeType body_element = ELEMENT_NODE"
  "nodeType div_element = ELEMENT_NODE" "nodeType text_node \<noteq> ELEMENT_NODE"
  by (simp_all add: html_element_def body_element_def div_element_def text_node_def ELEMENT_NODE_def)

lemma parsePercent_half: "parsePercent ''50%'' = 50"
  by code_simp

lemma percentage_scrolls:
  assumes "getNodeFromXpath b (xpath ctx) = Inr (Some el)"
    and "nodeType el = ELEMENT_NODE"
    and "yArgOf (args ctx) = JString y"
  shows "scrolls (scrollElementToPercentage b ctx) =
         (if toLowerCase (tagName el) = ''html''
          then [ScrollTo Window
                  ((body_scrollHeight b - innerHeight b) * (parsePercent y / 100)) (scrollX b)]
          else [ScrollTo Element
                  ((scrollHeight el - clientHeight el) * (parsePercent y / 100)) (scrollLeft el)])"
    and "snd (scrollElementToPercentage b ctx) = Inr ()"
  using assms by (simp_all add: scrollElementToPercentage_def scrolls_def action_defs)

lemma chunk_scrolls:
  assumes "getNodeFromXpath b (xpath ctx) = Inr (Some el)"
    and "nodeType el = ELEMENT_NODE"
  shows "scrolls (scrollToNextChunk b ctx) =
         (if toLowerCase (tagName el) = ''html'' \<or> toLowerCase (tagName el) = ''body''
          then [ScrollBy Window (visualViewport_height b) 0]
          else [ScrollBy Element (boundingClientRect_height el) 0])"
    and "scrolls (scrollToPreviousChunk b ctx) =
         (if toLowerCase (tagName el) = ''html'' \<or> toLowerCase (tagName el) = ''body''
          then [ScrollBy Window (- visualViewport_height b) 0]
          else [ScrollBy Element (- boundingClientRect_height el) 0])"
  using assms
  by (simp_all add: scrollToNextChunk_def scrollToPreviousChunk_def scrolls_def action_defs Let_def
      split: option.split sum.split)





text \<open>
  C8. When the path resolves to nothing, or to a node that is not an element, each of
  the three scroll handlers returns normally; besides its log line the only thing it does
  is the console warning, so nothing is scrolled and nothing is raised.
\<close>

theorem scroll_unresolved_is_noop:
  assumes "getNodeFromXpath b (xpath ctx) = Inr None
     \<or> (\<exists>el. getNodeFromXpath b (xpath ctx) = Inr (Some el) \<and> nodeType el \<noteq> ELEMENT_NODE)"
  shows "snd (scrollElementToPercentage b ctx) = Inr ()
     \<and> commands (scrollElementToPercentage b ctx) = [ConsoleWarn ''Could not locate element to scroll on.'']
     \<and> snd (scrollToNextChunk b ctx) = Inr ()
     \<and> commands (scrollToNextChunk b ctx) = [ConsoleWarn ''Could not locate element to scroll by its height.'']
     \<and> snd (scrollToPreviousChunk b ctx) = Inr ()
     \<and> commands (scrollToPreviousChunk b ctx) = [ConsoleWarn ''Could not locate element to scroll by its height.'']"
  using assms
  by (auto simp add: scrollElementToPercentage_def scrollToNextChunk_def scrollToPreviousChunk_def
      commands_def action_defs)

theorem scroll_unresolved_is_noop_witness:
  "getNodeFromXpath quiet_browser (xpath (div_context\<lparr>xpath := ''/html/body/p''\<rparr>)) = Inr None
   \<and> snd (scrollElementToPercentage quiet_browser (div_context\<lparr>xpath := ''/html/body/p''\<rparr>)) = Inr ()
   \<and> commands (scrollElementToPercentage quiet_browser (div_context\<lparr>xpath := ''/html/body/p''\<rparr>))
       = [ConsoleWarn ''Could not locate element to scroll on.'']
   \<and> snd (scrollToNextChunk quiet_browser (div_context\<lparr>xpath := ''/html/body/p''\<rparr>)) = Inr ()
   \<and> commands (scrollToPreviousChunk quiet_browser (div_context\<lparr>xpath := ''/html/body/p''\<rparr>))
       = [ConsoleWarn ''Could not locate element to scroll by its height.'']"
proof -
  have h: "getNodeFromXpath quiet_browser (xpath (div_context\<lparr>xpath := ''/html/body/p''\<rparr>)) = Inr None"
    by (simp add: example_nodes)
  show ?thesis
    using scroll_unresolved_is_noop [of quiet_browser "div_context\<lparr>xpath := ''/html/body/p''\<rparr>"] h
    by simp
qed

text \<open>
  C10. In the percentage scroll the window is what scrolls exactly when the lower-cased
  tag of the resolved element is \<open>html\<close>. A \<open>body\<close> element is scrolled itself, over
  its own range \<open>scrollHeight - clientHeight\<close>, while both chunk scrolls of the same
  \<open>body\<close> element scroll the window by the height of the visual viewport.
\<close>

theorem percentage_root_is_html_only:
  assumes "getNodeFromXpath b (xpath ctx) = Inr (Some el)"
    and "nodeType el = ELEMENT_NODE"
    and "yArgOf (args ctx) = JString y"
  shows "((\<exists>t l. scrolls (scrollElementToPercentage b ctx) = [ScrollTo Window t l])
            = (toLowerCase (tagName el) = ''html''))
     \<and> (toLowerCase (tagName el) = ''body'' \<longrightarrow>
           scrolls (scrollElementToPercentage b ctx) =
             [ScrollTo Element ((scrollHeight el - clientHeight el) * (parsePercent y / 100))
                (scrollLeft el)]
         \<and> scrolls (scrollToNextChunk b ctx) = [ScrollBy Window (visualViewport_height b) 0]
         \<and> scrolls (scrollToPreviousChunk b ctx) = [ScrollBy Window (- visualViewport_height b) 0])"
proof (cases "toLowerCase (tagName el) = ''html''")
  case True
  then have "scrolls (scrollElementToPercentage b ctx) =
      [ScrollTo Window ((body_scrollHeight b - innerHeight b) * (parsePercent y / 100)) (scrollX b)]"
    using percentage_scrolls(1) [OF assms] by simp
  then have "\<exists>t l. scrolls (scrollElementToPercentage b ctx) = [ScrollTo Window t l]"
    by blast
  with True show ?thesis by simp
next
  case False
  then have elem: "scrolls (scrollElementToPercentage b ctx) =
      [ScrollTo Element ((scrollHeight el - clientHeight el) * (parsePercent y / 100)) (scrollLeft el)]"
    using percentage_scrolls(1) [OF assms] by simp
  then have "\<not> (\<exists>t l. scrolls (scrollElementToPercentage b ctx) = [ScrollTo Window t l])"
    by simp
  with False elem show ?thesis
    using chunk_scrolls [OF assms(1,2)] by simp
qed

theorem percentage_root_is_html_only_witness:
  "getNodeFromXpath quiet_browser (xpath (div_context\<lparr>xpath := ''/html/body''\<rparr>)) = Inr (Some body_element)
   \<and> nodeType body_element = ELEMENT_NODE
   \<and> yArgOf (args (div_context\<lparr>xpath := ''/html/body''\<rparr>)) = JString ''50%''
   \<and> toLowerCase (tagName body_element) = ''body''
   \<and> scrolls (scrollElementToPercentage quiet_browser (div_context\<lparr>xpath := ''/html/body''\<rparr>))
       = [ScrollTo Element 1600 5]
   \<and> scrolls (scrollToNextChunk quiet_browser (div_context\<lparr>xpath := ''/html/body''\<rparr>))
       = [ScrollBy Window 800 0]
   \<and> scrolls (scrollToPreviousChunk quiet_browser (div_context\<lparr>xpath := ''/html/body''\<rparr>))
       = [ScrollBy Window (- 800) 0]"
proof -
  have h1: "getNodeFromXpath quiet_browser (xpath (div_context\<lparr>xpath := ''/html/body''\<rparr>))
            = Inr (Some body_element)"
    by (simp add: example_nodes)
  have h2: "yArgOf (args (div_context\<lparr>xpath := ''/html/body''\<rparr>)) = JString ''50%''"
    by (simp add: yArgOf_def div_context_def)
  have d: "scrollHeight body_element = 3900" "clientHeight body_element = 700"
    "scrollLeft body_element = 5" "visualViewport_height quiet_browser = 800"
    by (simp_all add: body_element_def quiet_browser_def)
  show ?thesis
    using percentage_root_is_html_only [OF h1 example_node_types(2) h2]
      h1 h2 example_node_types example_tags parsePercent_half d
    by simp
qed

subsection \<open>Running the combinators\<close>

lemma fst_then_with:
  "fst (then_with m f) = (case snd m of Inl e \<Rightarrow> fst m | Inr x \<Rightarrow> fst m @ fst (f x))"
  by (cases m) (simp add: then_with_def split: sum.split prod.split)

lemma snd_then_with:
  "snd (then_with m f) = (case snd m of Inl e \<Rightarrow> Inl e | Inr x \<Rightarrow> snd (f x))"
  by (cases m) (simp add: then_with_def split: sum.split prod.split)

lemma fst_then_do:
  "fst (then_do m n) = (case snd m of Inl e \<Rightarrow> fst m | Inr x \<Rightarrow> fst m @ fst n)"
  by (simp add: then_do_def fst_then_with)

lemma snd_then_do:
  "snd (then_do m n) = (case snd m of Inl e \<Rightarrow> Inl e | Inr x \<Rightarrow> snd n)"
  by (simp add: then_do_def snd_then_with)

lemma fst_try_catch:
  "fst (try_catch m h) = (case snd m of Inl e \<Rightarrow> fst m @ fst (h e) | Inr x \<Rightarrow> fst m)"
  by (cases m) (simp add: try_catch_def split: sum.split prod.split)

lemma snd_try_catch:
  "snd (try_catch m h) = (case snd m of Inl e \<Rightarrow> snd (h e) | Inr x \<Rightarrow> Inr x)"
  by (cases m) (simp add: try_catch_def split: sum.split prod.split)

lemma basic_actions:
  "fst (finish x) = []" "snd (finish x) = Inr x"
  "fst (throw e) = []" "snd (throw e) = Inl e"
  "fst (emit ef) = [ef]" "snd (emit ef) = Inr ()"
  "fst (await ef r) = [ef]" "snd (await ef r) = (case r of None \<Rightarrow> Inr () | Some e \<Rightarrow> Inl e)"
  "fst (query q) = []" "snd (query q) = q"
  by (simp_all add: finish_def throw_def emit_def await_def query_def)

lemmas run_simps =
  fst_then_with snd_then_with fst_then_do snd_then_do fst_try_catch snd_try_catch basic_actions

subsection \<open>The text input simulator\<close>









subsection \<open>The navigation watcher\<close>

lemma raceForNewPage_run:
  "fst (raceForNewPage b) = [ContextOnce ''page'', SetTimeout 1500]"
  "snd (raceForNewPage b) =
     Inr (case newPageEvent b of
            None \<Rightarrow> None
          | Some (t, p) \<Rightarrow> if t < 1500 \<or> (t = 1500 \<and> pageEventFirstOnTie b) then Some p else None)"
  by (simp_all add: raceForNewPage_def run_simps)

lemma navigation_without_new_page:
  assumes "snd (raceForNewPage b) = Inr None"
  shows "commands (handlePossiblePageNavigation a xp init b s) =
           [ContextOnce ''page'', SetTimeout 1500, WaitForSettledDom s]"
    and "snd (handlePossiblePageNavigation a xp init b s) = Inr ()"
  using assms
  by (simp_all add: handlePossiblePageNavigation_def commands_def run_simps raceForNewPage_run(1)
      split: option.split)

lemma navigation_with_new_page:
  assumes "snd (raceForNewPage b) = Inr (Some p)"
  shows "commands (handlePossiblePageNavigation a xp init b s) =
           [ContextOnce ''page'', SetTimeout 1500, ClosePage p] @
           (case close b p of
              Some e \<Rightarrow> []
            | None \<Rightarrow>
                Goto (url p) #
                (case goto b (url p) of
                   Some e \<Rightarrow> []
                 | None \<Rightarrow>
                     WaitForLoadState ''domcontentloaded'' #
                     (case waitForLoadState b ''domcontentloaded'' of
                        Some e \<Rightarrow> []
                      | None \<Rightarrow> [WaitForSettledDom s])))"
    and "snd (handlePossiblePageNavigation a xp init b s) =
           (case close b p of
              Some e \<Rightarrow> Inl e
            | None \<Rightarrow>
                (case goto b (url p) of
                   Some e \<Rightarrow> Inl e
                 | None \<Rightarrow>
                     (case waitForLoadState b ''domcontentloaded'' of
                        Some e \<Rightarrow> Inl e
                      | None \<Rightarrow> Inr ())))"
  using assms
  by (simp_all add: handlePossiblePageNavigation_def commands_def run_simps raceForNewPage_run(1)
      split: option.split)

lemma navigation_no_clicks:
  "filter isClick (fst (handlePossiblePageNavigation a xp init b s)) = []"
  by (simp add: handlePossiblePageNavigation_def run_simps raceForNewPage_run
      split: option.split sum.split)

lemma settle_failure_logged:
  assumes "snd (handlePossiblePageNavigation a xp init b s) = Inr ()"
    and "waitForSettledDom b s = Some e"
  shows "Log ''action'' ''wait for settled DOM timeout hit'' 1
           [(''trace'', AuxStack e, ''string''), (''message'', AuxString (message e), ''string'')]
         \<in> set (fst (handlePossiblePageNavigation a xp init b s))"
  using assms
  by (simp add: handlePossiblePageNavigation_def run_simps raceForNewPage_run
      split: option.split_asm sum.split_asm option.split sum.split)

subsection \<open>Click\<close>

lemma finalLocator_no_effects: "fst (finalLocator b ctx) = []"
  by (simp add: finalLocator_def run_simps Let_def split: sum.split option.split)

lemma finalLocator_not_radio:
  "evaluate_isRadio b = Inr False \<Longrightarrow> snd (finalLocator b ctx) = Inr CtxLocator"
  by (simp add: finalLocator_def run_simps)


text \<open>What \<open>clickElement\<close> does once the target is known, by the outcome of the clicks.\<close>

lemma clickWithRetry_first_ok:
  assumes "click b 0 l (withTimeout ca) = None"
  shows "clickWithRetry b xp l ca = ([Click l (withTimeout ca)], Inr ())"
  using assms by (simp add: clickWithRetry_def action_defs)

lemma clickWithRetry_forced_ok:
  assumes "click b 0 l (withTimeout ca) = Some e" and "isTimeoutError e"
    and "click b 1 l (withForce ca) = None"
  shows "clickWithRetry b xp l ca =
           ([Click l (withTimeout ca),
             Log ''action'' ''First click attempt timed out, retrying with force...'' 2 [],
             Click l (withForce ca)], Inr ())"
  using assms by (simp add: clickWithRetry_def action_defs)

lemma clickWithRetry_forced_fails:
  assumes "click b 0 l (withTimeout ca) = Some e" and "isTimeoutError e"
    and "click b 1 l (withForce ca) = Some fe"
  shows "clickWithRetry b xp l ca =
           ([Click l (withTimeout ca),
             Log ''action'' ''First click attempt timed out, retrying with force...'' 2 [],
             Click l (withForce ca)],
            Inl (PlaywrightCommandException (forceClickFailedMessage xp e fe)))"
  using assms by (simp add: clickWithRetry_def action_defs)

lemma clickWithRetry_other_error:
  assumes "click b 0 l (withTimeout ca) = Some e" and "\<not> isTimeoutError e"
  shows "clickWithRetry b xp l ca =
           ([Click l (withTimeout ca)], Inl (PlaywrightCommandException (clickFailedMessage xp e)))"
  using assms by (simp add: clickWithRetry_def action_defs)

lemma clickElement_clicked:
  assumes "snd (finalLocator b ctx) = Inr l"
    and "clickWithRetry b (xpath ctx) l (clickArgOf (args ctx)) = (es, Inr ())"
  shows "fst (clickElement b ctx) =
           Log ''action'' ''page URL before click'' 2
             [(''url'', AuxString (page_url_before b), ''string'')] # es @
           fst (handlePossiblePageNavigation ''click'' (xpath ctx) (initialUrl ctx) b
                  (domSettleTimeoutMs ctx))"
    and "snd (clickElement b ctx) =
           snd (handlePossiblePageNavigation ''click'' (xpath ctx) (initialUrl ctx) b
                  (domSettleTimeoutMs ctx))"
  using assms
  by (simp_all add: clickElement_def run_simps finalLocator_no_effects)

lemma clickElement_failed:
  assumes "snd (finalLocator b ctx) = Inr l"
    and "clickWithRetry b (xpath ctx) l (clickArgOf (args ctx)) = (es, Inl e)"
  shows "filter isClick (fst (clickElement b ctx)) = filter isClick es"
    and "snd (clickElement b ctx) =
           Inl (PlaywrightCommandException (couldNotCompleteMessage (xpath ctx) e))"
  using assms
  by (simp_all add: clickElement_def run_simps finalLocator_no_effects)

text \<open>What the composed messages contain.\<close>

lemma sublist_skip: "sublist x zs \<Longrightarrow> sublist x (ys @ zs)"
  by (metis sublist_append)

lemma forceClickFailedMessage_parts:
  "sublist xp (forceClickFailedMessage xp e fe)"
  "sublist (message e) (forceClickFailedMessage xp e fe)"
  "sublist (message fe) (forceClickFailedMessage xp e fe)"
  unfolding forceClickFailedMessage_def
  by (rule sublist_order.order.refl sublist_append_rightI | rule sublist_skip)+

lemma clickFailedMessage_parts:
  "sublist xp (clickFailedMessage xp e)"
  "sublist (message e) (clickFailedMessage xp e)"
  unfolding clickFailedMessage_def
  by (rule sublist_order.order.refl sublist_append_rightI | rule sublist_skip)+

lemma couldNotCompleteMessage_parts:
  "sublist xp (couldNotCompleteMessage xp e)"
  "sublist x (message e) \<Longrightarrow> sublist x (couldNotCompleteMessage xp e)"
  unfolding couldNotCompleteMessage_def
  by (rule sublist_order.order.refl sublist_append_rightI | rule sublist_skip | assumption)+

lemma quiet_reads:
  "evaluate_isRadio quiet_browser = Inr False"
  "click quiet_browser n l os = None"
  "keyboard_press quiet_browser k = None"
  "newPageEvent quiet_browser = None"
  "waitForSettledDom quiet_browser t = None"
  "close quiet_browser p = None" "goto quiet_browser u = None"
  "waitForLoadState quiet_browser st = None"
  by (simp_all add: quiet_browser_def)

text \<open>
  C1. Let \<open>l\<close> be the target of the click. When the first click, which carries the timeout
  of 5000, fails with a \<open>TimeoutError\<close>, the clicks of the handler are that one and
  exactly one more, the forced one; when the forced click fails too, the handler raises a
  \<open>PlaywrightCommandException\<close> whose message contains the path, the message of the
  timeout and the message of the forced click. When the first click fails with any other
  error, it is the only click, and the handler raises a \<open>PlaywrightCommandException\<close>
  whose message contains the path and the message of that error.
\<close>

theorem click_retry_policy:
  assumes "snd (finalLocator b ctx) = Inr l"
    and "click b 0 l (withTimeout (clickArgOf (args ctx))) = Some e"
  shows "(isTimeoutError e \<longrightarrow>
            filter isClick (fst (clickElement b ctx)) =
              [Click l (withTimeout (clickArgOf (args ctx))),
               Click l (withForce (clickArgOf (args ctx)))])
     \<and> (isTimeoutError e \<and> click b 1 l (withForce (clickArgOf (args ctx))) = Some fe \<longrightarrow>
            (\<exists>msg. snd (clickElement b ctx) = Inl (PlaywrightCommandException msg)
               \<and> sublist (xpath ctx) msg \<and> sublist (message e) msg \<and> sublist (message fe) msg))
     \<and> (\<not> isTimeoutError e \<longrightarrow>
            filter isClick (fst (clickElement b ctx)) =
              [Click l (withTimeout (clickArgOf (args ctx)))]
          \<and> (\<exists>msg. snd (clickElement b ctx) = Inl (PlaywrightCommandException msg)
               \<and> sublist (xpath ctx) msg \<and> sublist (message e) msg))"
proof (cases "isTimeoutError e")
  case False
  note other = clickWithRetry_other_error [OF assms(2) False, of "xpath ctx"]
  have clicks: "filter isClick (fst (clickElement b ctx)) =
      [Click l (withTimeout (clickArgOf (args ctx)))]"
    using clickElement_failed(1) [OF assms(1) other] by simp
  have raised: "snd (clickElement b ctx) = Inl (PlaywrightCommandException
      (couldNotCompleteMessage (xpath ctx)
         (PlaywrightCommandException (clickFailedMessage (xpath ctx) e))))"
    using clickElement_failed(2) [OF assms(1) other] .
  have parts: "sublist (xpath ctx) (couldNotCompleteMessage (xpath ctx)
         (PlaywrightCommandException (clickFailedMessage (xpath ctx) e)))"
    "sublist (message e) (couldNotCompleteMessage (xpath ctx)
         (PlaywrightCommandException (clickFailedMessage (xpath ctx) e)))"
    by (simp_all add: couldNotCompleteMessage_parts clickFailedMessage_parts)
  have "\<exists>msg. snd (clickElement b ctx) = Inl (PlaywrightCommandException msg)
               \<and> sublist (xpath ctx) msg \<and> sublist (message e) msg"
    using raised parts by (intro exI conjI)
  with False clicks show ?thesis by simp
next
  case True
  have clicks: "filter isClick (fst (clickElement b ctx)) =
      [Click l (withTimeout (clickArgOf (args ctx))), Click l (withForce (clickArgOf (args ctx)))]"
  proof (cases "click b 1 l (withForce (clickArgOf (args ctx)))")
    case None
    show ?thesis
      using clickElement_clicked(1)
        [OF assms(1) clickWithRetry_forced_ok [OF assms(2) True None, of "xpath ctx"]]
      by (simp add: navigation_no_clicks)
  next
    case (Some fe')
    show ?thesis
      using clickElement_failed(1)
        [OF assms(1) clickWithRetry_forced_fails [OF assms(2) True Some, of "xpath ctx"]]
      by simp
  qed
  have raised: "\<exists>msg. snd (clickElement b ctx) = Inl (PlaywrightCommandException msg)
      \<and> sublist (xpath ctx) msg \<and> sublist (message e) msg \<and> sublist (message fe) msg"
    if forced: "click b 1 l (withForce (clickArgOf (args ctx))) = Some fe"
  proof -
    have r: "snd (clickElement b ctx) = Inl (PlaywrightCommandException
        (couldNotCompleteMessage (xpath ctx)
           (PlaywrightCommandException (forceClickFailedMessage (xpath ctx) e fe))))"
      using clickElement_failed(2)
        [OF assms(1) clickWithRetry_forced_fails [OF assms(2) True forced, of "xpath ctx"]] .
    have parts: "sublist (xpath ctx) (couldNotCompleteMessage (xpath ctx)
           (PlaywrightCommandException (forceClickFailedMessage (xpath ctx) e fe)))"
      "sublist (message e) (couldNotCompleteMessage (xpath ctx)
           (PlaywrightCommandException (forceClickFailedMessage (xpath ctx) e fe)))"
      "sublist (message fe) (couldNotCompleteMessage (xpath ctx)
           (PlaywrightCommandException (forceClickFailedMessage (xpath ctx) e fe)))"
      by (simp_all add: couldNotCompleteMessage_parts forceClickFailedMessage_parts)
    show ?thesis
      using r parts by (intro exI conjI)
  qed
  with True clicks show ?thesis by simp
qed

theorem click_retry_policy_witness:
  "snd (finalLocator stuck_browser radio_context) = Inr CtxLocator
   \<and> click stuck_browser 0 CtxLocator (withTimeout (clickArgOf (args radio_context)))
       = Some (TimeoutError ''Timeout 5000ms exceeded.'')
   \<and> isTimeoutError (TimeoutError ''Timeout 5000ms exceeded.'')
   \<and> click stuck_browser 1 CtxLocator (withForce (clickArgOf (args radio_context)))
       = Some (Error ''Element is not attached to the DOM'')
   \<and> filter isClick (fst (clickElement stuck_browser radio_context)) =
       [Click CtxLocator [(''timeout'', JNumber 5000)], Click CtxLocator [(''force'', JBool True)]]
   \<and> (\<exists>msg. snd (clickElement stuck_browser radio_context) = Inl (PlaywrightCommandException msg)
         \<and> sublist ''/html/body/form/input[1]'' msg
         \<and> sublist ''Timeout 5000ms exceeded.'' msg
         \<and> sublist ''Element is not attached to the DOM'' msg)
   \<and> snd (finalLocator detached_browser radio_context) = Inr CtxLocator
   \<and> click detached_browser 0 CtxLocator (withTimeout (clickArgOf (args radio_context)))
       = Some (Error ''Element is not attached to the DOM'')
   \<and> \<not> isTimeoutError (Error ''Element is not attached to the DOM'')
   \<and> filter isClick (fst (clickElement detached_browser radio_context)) =
       [Click CtxLocator [(''timeout'', JNumber 5000)]]"
proof -
  have t: "snd (finalLocator stuck_browser radio_context) = Inr CtxLocator"
    "snd (finalLocator detached_browser radio_context) = Inr CtxLocator"
    by (simp_all add: finalLocator_not_radio stuck_browser_def detached_browser_def quiet_reads)
  have o: "withTimeout (clickArgOf (args radio_context)) = [(''timeout'', JNumber 5000)]"
    "withForce (clickArgOf (args radio_context)) = [(''force'', JBool True)]"
    by (simp_all add: withTimeout_def withForce_def clickArgOf_def firstArg_def radio_context_def)
  have c0: "click stuck_browser 0 CtxLocator (withTimeout (clickArgOf (args radio_context)))
       = Some (TimeoutError ''Timeout 5000ms exceeded.'')"
    by (simp add: stuck_browser_def)
  have c1: "click stuck_browser 1 CtxLocator (withForce (clickArgOf (args radio_context)))
       = Some (Error ''Element is not attached to the DOM'')"
    by (simp add: stuck_browser_def)
  have d0: "click detached_browser 0 CtxLocator (withTimeout (clickArgOf (args radio_context)))
       = Some (Error ''Element is not attached to the DOM'')"
    by (simp add: detached_browser_def)
  have x: "xpath radio_context = ''/html/body/form/input[1]''"
    by (simp add: radio_context_def)
  show ?thesis
    using click_retry_policy [OF t(1) c0, of "Error ''Element is not attached to the DOM''"]
      click_retry_policy [OF t(2) d0] t c0 c1 d0 o x
    by simp
qed






lemma race_won:
  "newPageEvent b = Some (t, p) \<Longrightarrow> t < 1500 \<Longrightarrow> snd (raceForNewPage b) = Inr (Some p)"
  by (simp add: raceForNewPage_run)

lemma race_lost:
  "newPageEvent b = None \<or> (\<exists>t p. newPageEvent b = Some (t, p) \<and> 1500 < t) \<Longrightarrow>
     snd (raceForNewPage b) = Inr None"
  by (auto simp add: raceForNewPage_run)

lemma pressKey_commands:
  assumes "keyboard_press b (keyOf (args ctx) []) = None"
  shows "commands (pressKey b ctx) =
           KeyboardPress (keyOf (args ctx) []) #
           commands (handlePossiblePageNavigation ''press'' (xpath ctx) (initialUrl ctx) b
                       (domSettleTimeoutMs ctx))"
    and "snd (handlePossiblePageNavigation ''press'' (xpath ctx) (initialUrl ctx) b
                (domSettleTimeoutMs ctx)) = Inr () \<Longrightarrow> snd (pressKey b ctx) = Inr ()"
    and "set (fst (handlePossiblePageNavigation ''press'' (xpath ctx) (initialUrl ctx) b
                (domSettleTimeoutMs ctx))) \<subseteq> set (fst (pressKey b ctx))"
  using assms
  by (auto simp add: pressKey_def commands_def run_simps Let_def split: sum.split)

lemma clickElement_commands:
  assumes "snd (finalLocator b ctx) = Inr l"
    and "click b 0 l (withTimeout (clickArgOf (args ctx))) = None"
  shows "commands (clickElement b ctx) =
           Click l (withTimeout (clickArgOf (args ctx))) #
           commands (handlePossiblePageNavigation ''click'' (xpath ctx) (initialUrl ctx) b
                       (domSettleTimeoutMs ctx))"
  using clickElement_clicked(1) [OF assms(1) clickWithRetry_first_ok [OF assms(2), of "xpath ctx"]]
  by (simp add: commands_def)

text \<open>
  C3. The watcher subscribes once to the \<open>page\<close> event of the browser context and sets
  one timer of 1500. When the event comes before the timer, the watcher closes the new
  page; then, each step only after the one before it has succeeded, it sends the original
  page to the URL of the new one and waits for the load state \<open>domcontentloaded\<close>, and
  only after that does it go on to the settle wait: an error of that wait for the load
  state ends the watcher with this error. When no event comes before the timer fires,
  the settle wait is all that follows, with no navigation. A key press that succeeded,
  and a click that succeeded, are followed by exactly the commands of the watcher.
\<close>

theorem new_page_race:
  "(newPageEvent b = Some (t, p) \<and> t < 1500 \<longrightarrow>
      (\<exists>rest. commands (handlePossiblePageNavigation a xp init b s) =
         [ContextOnce ''page'', SetTimeout 1500, ClosePage p] @ rest)
    \<and> (close b p = None \<and> goto b (url p) = None
         \<and> waitForLoadState b ''domcontentloaded'' = None \<longrightarrow>
        commands (handlePossiblePageNavigation a xp init b s) =
          [ContextOnce ''page'', SetTimeout 1500, ClosePage p, Goto (url p),
           WaitForLoadState ''domcontentloaded'', WaitForSettledDom s]
        \<and> snd (handlePossiblePageNavigation a xp init b s) = Inr ())
    \<and> (close b p = None \<and> goto b (url p) = None
         \<and> waitForLoadState b ''domcontentloaded'' = Some e \<longrightarrow>
        commands (handlePossiblePageNavigation a xp init b s) =
          [ContextOnce ''page'', SetTimeout 1500, ClosePage p, Goto (url p),
           WaitForLoadState ''domcontentloaded'']
        \<and> snd (handlePossiblePageNavigation a xp init b s) = Inl e))
   \<and> (newPageEvent b = None \<or> (\<exists>t' p'. newPageEvent b = Some (t', p') \<and> 1500 < t') \<longrightarrow>
        commands (handlePossiblePageNavigation a xp init b s) =
          [ContextOnce ''page'', SetTimeout 1500, WaitForSettledDom s]
        \<and> snd (handlePossiblePageNavigation a xp init b s) = Inr ())
   \<and> (keyboard_press b (keyOf (args ctx) []) = None \<longrightarrow>
        commands (pressKey b ctx) =
          KeyboardPress (keyOf (args ctx) []) #
          commands (handlePossiblePageNavigation ''press'' (xpath ctx) (initialUrl ctx) b
                      (domSettleTimeoutMs ctx)))
   \<and> (snd (finalLocator b ctx) = Inr l
        \<and> click b 0 l (withTimeout (clickArgOf (args ctx))) = None \<longrightarrow>
        commands (clickElement b ctx) =
          Click l (withTimeout (clickArgOf (args ctx))) #
          commands (handlePossiblePageNavigation ''click'' (xpath ctx) (initialUrl ctx) b
                      (domSettleTimeoutMs ctx)))"
proof -
  have won: "(\<exists>rest. commands (handlePossiblePageNavigation a xp init b s) =
         [ContextOnce ''page'', SetTimeout 1500, ClosePage p] @ rest)
    \<and> (close b p = None \<and> goto b (url p) = None
         \<and> waitForLoadState b ''domcontentloaded'' = None \<longrightarrow>
        commands (handlePossiblePageNavigation a xp init b s) =
          [ContextOnce ''page'', SetTimeout 1500, ClosePage p, Goto (url p),
           WaitForLoadState ''domcontentloaded'', WaitForSettledDom s]
        \<and> snd (handlePossiblePageNavigation a xp init b s) = Inr ())
    \<and> (close b p = None \<and> goto b (url p) = None
         \<and> waitForLoadState b ''domcontentloaded'' = Some e \<longrightarrow>
        commands (handlePossiblePageNavigation a xp init b s) =
          [ContextOnce ''page'', SetTimeout 1500, ClosePage p, Goto (url p),
           WaitForLoadState ''domcontentloaded'']
        \<and> snd (handlePossiblePageNavigation a xp init b s) = Inl e)"
    if "newPageEvent b = Some (t, p)" "t < 1500"
    using navigation_with_new_page [OF race_won [OF that], of a xp init s]
    by simp
  have lost: "commands (handlePossiblePageNavigation a xp init b s) =
          [ContextOnce ''page'', SetTimeout 1500, WaitForSettledDom s]
        \<and> snd (handlePossiblePageNavigation a xp init b s) = Inr ()"
    if "newPageEvent b = None \<or> (\<exists>t' p'. newPageEvent b = Some (t', p') \<and> 1500 < t')"
    using navigation_without_new_page [OF race_lost [OF that], of a xp init s]
    by simp
  show ?thesis
    using won lost pressKey_commands(1) [of b ctx] clickElement_commands [of b ctx l]
    by blast
qed

theorem new_page_race_witness:
  "newPageEvent new_tab_browser = Some (300, Page ''https://b.example/'')
   \<and> (300 :: nat) < 1500
   \<and> close new_tab_browser (Page ''https://b.example/'') = None
   \<and> goto new_tab_browser (url (Page ''https://b.example/'')) = None
   \<and> waitForLoadState new_tab_browser ''domcontentloaded'' = None
   \<and> commands (handlePossiblePageNavigation ''click'' ''/html/body/a'' ''https://a.example/''
        new_tab_browser None) =
       [ContextOnce ''page'', SetTimeout 1500, ClosePage (Page ''https://b.example/''),
        Goto ''https://b.example/'', WaitForLoadState ''domcontentloaded'', WaitForSettledDom None]
   \<and> newPageEvent quiet_browser = None
   \<and> commands (handlePossiblePageNavigation ''click'' ''/html/body/a'' ''https://a.example/''
        quiet_browser None) =
       [ContextOnce ''page'', SetTimeout 1500, WaitForSettledDom None]
   \<and> keyboard_press quiet_browser (keyOf (args radio_context) []) = None
   \<and> commands (pressKey quiet_browser radio_context) =
       [KeyboardPress [], ContextOnce ''page'', SetTimeout 1500, WaitForSettledDom (Some 30000)]"
proof -
  have n: "newPageEvent new_tab_browser = Some (300, Page ''https://b.example/'')"
    "close new_tab_browser (Page ''https://b.example/'') = None"
    "goto new_tab_browser (url (Page ''https://b.example/'')) = None"
    "waitForLoadState new_tab_browser ''domcontentloaded'' = None"
    by (simp_all add: new_tab_browser_def quiet_browser_def)
  have k: "keyOf (args radio_context) [] = []" "domSettleTimeoutMs radio_context = Some 30000"
    by (simp_all add: keyOf_def firstArg_def radio_context_def)
  show ?thesis
    using new_page_race [of new_tab_browser 300 "Page ''https://b.example/''" "''click''"
        "''/html/body/a''" "''https://a.example/''" None]
      new_page_race [of quiet_browser _ _ "''click''" "''/html/body/a''" "''https://a.example/''" None]
      new_page_race [of quiet_browser _ _ "''press''" "xpath radio_context"
        "initialUrl radio_context" "Some 30000" _ radio_context]
      n k quiet_reads(3,4)
    by simp
qed

lemma navigation_settle_independent:
  "snd (handlePossiblePageNavigation a xp init b s) =
   snd (handlePossiblePageNavigation a xp init (b\<lparr>waitForSettledDom := (\<lambda>t. None)\<rparr>) s)"
  by (simp add: handlePossiblePageNavigation_def run_simps raceForNewPage_run
      split: option.split sum.split)

lemma navigation_succeeds:
  assumes "\<forall>p. snd (raceForNewPage b) = Inr (Some p) \<longrightarrow>
             close b p = None \<and> goto b (url p) = None
             \<and> waitForLoadState b ''domcontentloaded'' = None"
  shows "snd (handlePossiblePageNavigation a xp init b s) = Inr ()"
proof (cases "snd (raceForNewPage b)")
  case (Inl e)
  then show ?thesis by (simp add: raceForNewPage_run)
next
  case (Inr won)
  show ?thesis
  proof (cases won)
    case None
    with Inr show ?thesis
      using navigation_without_new_page(2) [of b a xp init s] by simp
  next
    case (Some p)
    with Inr assms have "close b p = None" "goto b (url p) = None"
      "waitForLoadState b ''domcontentloaded'' = None"
      by simp_all
    with Inr Some show ?thesis
      using navigation_with_new_page(2) [of b p a xp init s] by simp
  qed
qed

lemma clickElement_settle_logged:
  assumes "snd (finalLocator b ctx) = Inr l"
    and "clickWithRetry b (xpath ctx) l (clickArgOf (args ctx)) = (es, Inr ())"
  shows "set (fst (handlePossiblePageNavigation ''click'' (xpath ctx) (initialUrl ctx) b
                (domSettleTimeoutMs ctx))) \<subseteq> set (fst (clickElement b ctx))"
  using clickElement_clicked(1) [OF assms] by auto

text \<open>
  C4. Suppose the settle wait fails with an error \<open>e\<close>, a timeout or any other, and the
  steps that fold a new page back, when one opened, all succeed. Then a key press that
  succeeded returns normally, and so does a click that succeeded at its first attempt or
  at its forced retry; in both the failure of the settle wait is in the log, with the
  message of \<open>e\<close>. Whatever the watcher returns, it is what it returns when the settle
  wait succeeds.
\<close>

theorem settle_timeout_not_raised:
  assumes "waitForSettledDom b (domSettleTimeoutMs ctx) = Some e"
    and "\<forall>p. snd (raceForNewPage b) = Inr (Some p) \<longrightarrow>
           close b p = None \<and> goto b (url p) = None
           \<and> waitForLoadState b ''domcontentloaded'' = None"
  shows "(keyboard_press b (keyOf (args ctx) []) = None \<longrightarrow>
            snd (pressKey b ctx) = Inr ()
          \<and> Log ''action'' ''wait for settled DOM timeout hit'' 1
              [(''trace'', AuxStack e, ''string''), (''message'', AuxString (message e), ''string'')]
            \<in> set (fst (pressKey b ctx)))
     \<and> (snd (finalLocator b ctx) = Inr l
          \<and> (click b 0 l (withTimeout (clickArgOf (args ctx))) = None
              \<or> (\<exists>e0. click b 0 l (withTimeout (clickArgOf (args ctx))) = Some e0
                    \<and> isTimeoutError e0
                    \<and> click b 1 l (withForce (clickArgOf (args ctx))) = None)) \<longrightarrow>
            snd (clickElement b ctx) = Inr ()
          \<and> Log ''action'' ''wait for settled DOM timeout hit'' 1
              [(''trace'', AuxStack e, ''string''), (''message'', AuxString (message e), ''string'')]
            \<in> set (fst (clickElement b ctx)))
     \<and> snd (handlePossiblePageNavigation a xp init b s) =
         snd (handlePossiblePageNavigation a xp init (b\<lparr>waitForSettledDom := (\<lambda>t. None)\<rparr>) s)"
proof -
  let ?entry = "Log ''action'' ''wait for settled DOM timeout hit'' 1
      [(''trace'', AuxStack e, ''string''), (''message'', AuxString (message e), ''string'')]"
  have nav: "snd (handlePossiblePageNavigation d (xpath ctx) (initialUrl ctx) b
                    (domSettleTimeoutMs ctx)) = Inr ()" for d
    using navigation_succeeds [OF assms(2)] .
  have logged: "?entry \<in> set (fst (handlePossiblePageNavigation d (xpath ctx) (initialUrl ctx) b
                    (domSettleTimeoutMs ctx)))" for d
    using settle_failure_logged [OF nav assms(1)] .
  have press: "snd (pressKey b ctx) = Inr () \<and> ?entry \<in> set (fst (pressKey b ctx))"
    if "keyboard_press b (keyOf (args ctx) []) = None"
    using pressKey_commands(2,3) [OF that] nav logged by blast
  have clicked: "snd (clickElement b ctx) = Inr () \<and> ?entry \<in> set (fst (clickElement b ctx))"
    if t: "snd (finalLocator b ctx) = Inr l"
      and c: "click b 0 l (withTimeout (clickArgOf (args ctx))) = None
              \<or> (\<exists>e0. click b 0 l (withTimeout (clickArgOf (args ctx))) = Some e0
                    \<and> isTimeoutError e0
                    \<and> click b 1 l (withForce (clickArgOf (args ctx))) = None)"
  proof -
    obtain es where run: "clickWithRetry b (xpath ctx) l (clickArgOf (args ctx)) = (es, Inr ())"
      using c clickWithRetry_first_ok [of b l "clickArgOf (args ctx)" "xpath ctx"]
        clickWithRetry_forced_ok [of b l "clickArgOf (args ctx)" _ "xpath ctx"]
      by blast
    show ?thesis
      using clickElement_clicked(2) [OF t run] clickElement_settle_logged [OF t run] nav logged
      by auto
  qed
  show ?thesis
    using press clicked navigation_settle_independent [of a xp init b s] by blast
qed

theorem settle_timeout_not_raised_witness:
  "waitForSettledDom slow_browser (domSettleTimeoutMs radio_context)
     = Some (TimeoutError ''DOM did not settle'')
   \<and> (\<forall>p. snd (raceForNewPage slow_browser) \<noteq> Inr (Some p))
   \<and> keyboard_press slow_browser (keyOf (args radio_context) []) = None
   \<and> snd (pressKey slow_browser radio_context) = Inr ()
   \<and> snd (finalLocator slow_browser radio_context) = Inr CtxLocator
   \<and> click slow_browser 0 CtxLocator (withTimeout (clickArgOf (args radio_context))) = None
   \<and> snd (clickElement slow_browser radio_context) = Inr ()
   \<and> Log ''action'' ''wait for settled DOM timeout hit'' 1
        [(''trace'', AuxStack (TimeoutError ''DOM did not settle''), ''string''),
         (''message'', AuxString ''DOM did not settle'', ''string'')]
      \<in> set (fst (clickElement slow_browser radio_context))"
proof -
  have w: "waitForSettledDom slow_browser (domSettleTimeoutMs radio_context)
     = Some (TimeoutError ''DOM did not settle'')"
    by (simp add: slow_browser_def)
  have n: "\<forall>p. snd (raceForNewPage slow_browser) \<noteq> Inr (Some p)"
    by (simp add: raceForNewPage_run slow_browser_def quiet_reads)
  then have nav: "\<forall>p. snd (raceForNewPage slow_browser) = Inr (Some p) \<longrightarrow>
           close slow_browser p = None \<and> goto slow_browser (url p) = None
           \<and> waitForLoadState slow_browser ''domcontentloaded'' = None"
    by simp
  have k: "keyboard_press slow_browser (keyOf (args radio_context) []) = None"
    by (simp add: slow_browser_def quiet_reads)
  have t: "snd (finalLocator slow_browser radio_context) = Inr CtxLocator"
    by (simp add: finalLocator_not_radio slow_browser_def quiet_reads)
  have c: "click slow_browser 0 CtxLocator (withTimeout (clickArgOf (args radio_context))) = None"
    by (simp add: slow_browser_def quiet_reads)
  show ?thesis
    using settle_timeout_not_raised [OF w nav, of CtxLocator] w n k t c
    by simp
qed

end
